theory Spec2Isabelle
  imports Complex_Main "HOL-Library.AList"
begin

section \<open>Python values, dictionaries and strings\<close>

text \<open>
  The module \<^verbatim>\<open>moto/apigateway/models.py\<close> keeps every entity in Python dictionaries.
  A dictionary is an association list in insertion order: \<open>map_of\<close> reads a key,
  \<open>AList.update\<close> assigns one (in place when the key exists, at the end otherwise, as a
  Python dict does), \<open>AList.delete\<close> removes one. Strings are \<open>char\<close> lists.
\<close>

datatype error =
    RestAPINotFound
  | StageNotFoundException
  | InvalidResourcePathException
  | CrossAccountNotAllowed
  | IntegrationMethodNotDefined
  | AwsProxyNotAllowed
  | RoleNotSpecified
  | InvalidHttpEndpoint
  | InvalidArn
  | InvalidIntegrationArn
  | NoMethodDefined
  | NoIntegrationDefined
  | ApiKeyAlreadyExists
  | ApiKeyNotFoundException
  | PatchNotImplemented string
      \<comment> \<open>\<^verbatim>\<open>Exception('Patch operation "%s" not implemented' % op["op"])\<close>, with the op\<close>
  | KeyError
  | IndexError
  | ValueError

text \<open>The values a method setting holds after \<^verbatim>\<open>_convert_to_type\<close>, and status codes.\<close>

datatype pyval = VBool bool | VInt int | VFloat real | VStr string

text \<open>
  Python's \<^verbatim>\<open>int(s)\<close> and \<^verbatim>\<open>float(s)\<close> on a string and \<^verbatim>\<open>str(x)\<close> on a float
  are builtins of the language, not code of this module: the model takes them as
  parameters. \<open>None\<close> is the builtin raising \<^verbatim>\<open>ValueError\<close>; \<open>VFloat x\<close> stands for the
  double of value \<open>x\<close>.
\<close>

record builtins =
  py_int :: "string \<Rightarrow> int option"
  py_float :: "string \<Rightarrow> real option"
  py_str_float :: "real \<Rightarrow> string"

text \<open>Truth value of an optional string: \<^verbatim>\<open>None\<close> and \<^verbatim>\<open>""\<close> are false.\<close>

fun truthy :: "string option \<Rightarrow> bool" where
  "truthy None = False"
| "truthy (Some s) = (s \<noteq> [])"

text \<open>\<^verbatim>\<open>s.startswith(p)\<close>\<close>

fun startswith :: "string \<Rightarrow> string \<Rightarrow> bool" where
  "startswith s [] = True"
| "startswith [] (p # ps) = False"
| "startswith (c # cs) (p # ps) = (c = p \<and> startswith cs ps)"

text \<open>\<^verbatim>\<open>sub in s\<close> for strings: \<open>sub\<close> occurs in \<open>s\<close> as a contiguous run.\<close>

fun str_in :: "string \<Rightarrow> string \<Rightarrow> bool" where
  "str_in sub [] = (sub = [])"
| "str_in sub (c # cs) = (startswith (c # cs) sub \<or> str_in sub cs)"

text \<open>\<^verbatim>\<open>s.rindex(sub)\<close>: the last position where \<open>sub\<close> starts; \<open>None\<close> is ValueError.\<close>

fun rindex :: "string \<Rightarrow> string \<Rightarrow> nat option" where
  "rindex [] sub = (if sub = [] then Some 0 else None)"
| "rindex (c # cs) sub =
     (case rindex cs sub of
        Some i \<Rightarrow> Some (Suc i)
      | None \<Rightarrow> if startswith (c # cs) sub then Some 0 else None)"

text \<open>\<^verbatim>\<open>s.split(sep, maxsplit)\<close> with a one-character separator.\<close>

fun split_max :: "char \<Rightarrow> nat \<Rightarrow> string \<Rightarrow> string list" where
  "split_max sep 0 s = [s]"
| "split_max sep (Suc n) s =
     (if sep \<in> set s
      then takeWhile (\<lambda>c. c \<noteq> sep) s # split_max sep n (tl (dropWhile (\<lambda>c. c \<noteq> sep) s))
      else [s])"

text \<open>\<^verbatim>\<open>s.lower()\<close> on ASCII text.\<close>

definition lower_char :: "char \<Rightarrow> char" where
  "lower_char c =
     (let n = (of_char c :: nat) in if 65 \<le> n \<and> n \<le> 90 then char_of (n + 32) else c)"

definition lower :: "string \<Rightarrow> string" where
  "lower s = map lower_char s"

section \<open>Regular expressions of the module\<close>

text \<open>
  The module calls \<^verbatim>\<open>re.match(pattern, s)\<close>, which succeeds when some prefix of \<open>s\<close>
  matches. Its patterns are sequences of literals, optional characters, repeated
  character classes, alternatives of literals and the end anchor. \<open>rx_step\<close> gives
  every remainder of the input an item can leave, so backtracking is the list of
  remainders, and a match is a non-empty list at the end of the pattern.
\<close>

datatype rx_item =
    Lit string                 \<comment> \<open>literal text\<close>
  | Opt char                   \<comment> \<open>\<^verbatim>\<open>c?\<close>\<close>
  | Plus "char \<Rightarrow> bool"       \<comment> \<open>\<^verbatim>\<open>[class]+\<close>\<close>
  | Alts "string list"         \<comment> \<open>\<^verbatim>\<open>(a|b)\<close> of literals\<close>
  | Eos                        \<comment> \<open>\<^verbatim>\<open>$\<close>: the end, or before a newline that ends the string\<close>

fun rx_step :: "rx_item \<Rightarrow> string \<Rightarrow> string list" where
  "rx_step (Lit l) s = (if startswith s l then [drop (length l) s] else [])"
| "rx_step (Opt c) s = (case s of [] \<Rightarrow> [s] | d # ds \<Rightarrow> if d = c then [ds, s] else [s])"
| "rx_step (Plus P) s =
     map (\<lambda>k. drop k s) (rev [1 ..< Suc (length (takeWhile P s))])"
| "rx_step (Alts ls) s =
     concat (map (\<lambda>l. if startswith s l then [drop (length l) s] else []) ls)"
| "rx_step Eos s = (if s = [] \<or> s = [CHR 0x0A] then [s] else [])"

fun rx_run :: "rx_item list \<Rightarrow> string list \<Rightarrow> string list" where
  "rx_run [] rs = rs"
| "rx_run (i # is) rs = rx_run is (concat (map (rx_step i) rs))"

definition re_match :: "rx_item list \<Rightarrow> string \<Rightarrow> bool" where
  "re_match pat s = (rx_run pat [s] \<noteq> [])"

definition in_range :: "char \<Rightarrow> char \<Rightarrow> char \<Rightarrow> bool" where
  "in_range lo hi c = ((of_char lo :: nat) \<le> of_char c \<and> (of_char c :: nat) \<le> of_char hi)"

text \<open>\<^verbatim>\<open>[a-zA-Z0-9-]\<close> and \<^verbatim>\<open>[a-zA-Z0-9._-]\<close>\<close>

definition alnum_dash :: "char \<Rightarrow> bool" where
  "alnum_dash c =
     (in_range CHR ''a'' CHR ''z'' c \<or> in_range CHR ''A'' CHR ''Z'' c
      \<or> in_range CHR ''0'' CHR ''9'' c \<or> c = CHR ''-'')"

definition path_class :: "char \<Rightarrow> bool" where
  "path_class c =
     (in_range CHR ''a'' CHR ''z'' c \<or> in_range CHR ''A'' CHR ''Z'' c
      \<or> in_range CHR ''0'' CHR ''9'' c \<or> c = CHR ''.'' \<or> c = CHR ''_'' \<or> c = CHR ''-'')"

text \<open>\<^verbatim>\<open>"^\\{?[a-zA-Z0-9._-]+\\+?\\}?$"\<close> of \<^verbatim>\<open>create_resource\<close>\<close>

definition path_part_pattern :: "rx_item list" where
  "path_part_pattern = [Opt CHR ''{'', Plus path_class, Opt CHR ''+'', Opt CHR ''}'', Eos]"

text \<open>\<^verbatim>\<open>"^arn:aws:apigateway:[a-zA-Z0-9-]+:s3"\<close>\<close>

definition s3_arn_pattern :: "rx_item list" where
  "s3_arn_pattern = [Lit ''arn:aws:apigateway:'', Plus alnum_dash, Lit '':s3'']"

text \<open>\<^verbatim>\<open>"^arn:aws:"\<close>\<close>

definition aws_arn_pattern :: "rx_item list" where
  "aws_arn_pattern = [Lit ''arn:aws:'']"

text \<open>\<^verbatim>\<open>"^arn:aws:apigateway:[a-zA-Z0-9-]+:[a-zA-Z0-9-]+:(path|action)/"\<close>\<close>

definition integration_arn_pattern :: "rx_item list" where
  "integration_arn_pattern =
     [Lit ''arn:aws:apigateway:'', Plus alnum_dash, Lit '':'', Plus alnum_dash, Lit '':'',
      Alts [''path'', ''action''], Lit ''/'']"

text \<open>
  \<^verbatim>\<open>"^arn:aws:iam::" + str(ACCOUNT_ID)\<close>. \<^verbatim>\<open>ACCOUNT_ID\<close> is imported from
  \<^verbatim>\<open>moto.sts.models\<close>, which is not part of this module: it is a parameter, a string
  of digits (so the pattern is a literal).
\<close>

definition iam_arn_pattern :: "string \<Rightarrow> rx_item list" where
  "iam_arn_pattern account_id = [Lit (''arn:aws:iam::'' @ account_id)]"

section \<open>Stage and its patch interpreter\<close>

text \<open>
  \<^verbatim>\<open>class Stage(BaseModel, dict)\<close>. The key \<^verbatim>\<open>cacheClusterSize\<close> may be absent
  (\<open>None\<close>); \<^verbatim>\<open>cacheClusterEnabled\<close> may hold Python's \<^verbatim>\<open>None\<close> (\<open>None\<close>), since
  \<^verbatim>\<open>RestAPI.create_stage\<close> passes its default through.
\<close>

record Stage =
  stageName :: "string option"
  deploymentId :: "string option"
  methodSettings :: "(string \<times> (string \<times> pyval) list) list"
  variables :: "(string \<times> string) list"
  description :: string
  cacheClusterEnabled :: "bool option"
  cacheClusterSize :: "string option"

text \<open>
  \<^verbatim>\<open>Stage.__init__\<close>. \<^verbatim>\<open>str(0.5)\<close> is the constant \<^verbatim>\<open>"0.5"\<close>; a given
  \<^verbatim>\<open>cacheClusterSize\<close> is taken as the text \<^verbatim>\<open>str\<close> returns for it.
\<close>

definition Stage_init ::
  "string option \<Rightarrow> string option \<Rightarrow> (string \<times> string) list option \<Rightarrow> string
     \<Rightarrow> bool option \<Rightarrow> string option \<Rightarrow> Stage" where
  "Stage_init name deployment_id vars descr enabled csize =
     (let s0 = \<lparr> stageName = name, deploymentId = deployment_id, methodSettings = [],
                 variables = (case vars of None \<Rightarrow> [] | Some v \<Rightarrow> v),
                 description = descr, cacheClusterEnabled = enabled,
                 cacheClusterSize = None \<rparr>;
          s1 = (if enabled = Some True then s0\<lparr>cacheClusterSize := Some ''0.5''\<rparr> else s0)
      in case csize of None \<Rightarrow> s1 | Some c \<Rightarrow> s1\<lparr>cacheClusterSize := Some c\<rparr>)"

text \<open>
  One patch operation, a dictionary with the keys \<^verbatim>\<open>op\<close>, \<^verbatim>\<open>path\<close> and
  \<^verbatim>\<open>value\<close>. A \<^verbatim>\<open>remove\<close> carries no value, so \<open>value\<close> is optional and reading a
  missing one is the \<^verbatim>\<open>KeyError\<close> of \<^verbatim>\<open>op["value"]\<close>.
\<close>

record patch_op =
  op :: string
  path :: string
  "value" :: "string option"

definition str2bool :: "string \<Rightarrow> bool" where
  "str2bool v = (lower v = ''true'')"

definition get_default_method_settings :: "(string \<times> pyval) list" where
  "get_default_method_settings =
     [(''throttlingRateLimit'', VFloat 1000),
      (''dataTraceEnabled'', VBool False),
      (''metricsEnabled'', VBool False),
      (''unauthorizedCacheControlHeaderStrategy'', VStr ''SUCCEED_WITH_RESPONSE_HEADER''),
      (''cacheTtlInSeconds'', VInt 300),
      (''cacheDataEncrypted'', VBool True),
      (''cachingEnabled'', VBool False),
      (''throttlingBurstLimit'', VInt 2000),
      (''requireAuthorizationForCacheControl'', VBool True)]"

definition method_settings_translations :: "string \<Rightarrow> string option" where
  "method_settings_translations key =
     map_of
       [(''metrics/enabled'', ''metricsEnabled''),
        (''logging/loglevel'', ''loggingLevel''),
        (''logging/dataTrace'', ''dataTraceEnabled''),
        (''throttling/burstLimit'', ''throttlingBurstLimit''),
        (''throttling/rateLimit'', ''throttlingRateLimit''),
        (''caching/enabled'', ''cachingEnabled''),
        (''caching/ttlInSeconds'', ''cacheTtlInSeconds''),
        (''caching/dataEncrypted'', ''cacheDataEncrypted''),
        (''caching/requireAuthorizationForCacheControl'',
           ''requireAuthorizationForCacheControl''),
        (''caching/unauthorizedCacheControlHeaderStrategy'',
           ''unauthorizedCacheControlHeaderStrategy'')] key"

definition type_mappings :: "(string \<times> string) list" where
  "type_mappings =
     [(''metricsEnabled'', ''bool''),
      (''loggingLevel'', ''str''),
      (''dataTraceEnabled'', ''bool''),
      (''throttlingBurstLimit'', ''int''),
      (''throttlingRateLimit'', ''float''),
      (''cachingEnabled'', ''bool''),
      (''cacheTtlInSeconds'', ''int''),
      (''cacheDataEncrypted'', ''bool''),
      (''requireAuthorizationForCacheControl'', ''bool''),
      (''unauthorizedCacheControlHeaderStrategy'', ''str'')]"

definition convert_to_type :: "builtins \<Rightarrow> string \<Rightarrow> string \<Rightarrow> error + pyval" where
  "convert_to_type B key val =
     (case map_of type_mappings key of
        Some type_value \<Rightarrow>
          if type_value = ''bool'' then Inr (VBool (str2bool val))
          else if type_value = ''int'' then
            (case py_int B val of None \<Rightarrow> Inl ValueError | Some i \<Rightarrow> Inr (VInt i))
          else if type_value = ''float'' then
            (case py_float B val of None \<Rightarrow> Inl ValueError | Some x \<Rightarrow> Inr (VFloat x))
          else Inr (VStr val)
      | None \<Rightarrow> Inr (VStr val))"

text \<open>
  The methods of \<open>Stage\<close> change the stage in place and may raise after a change. Each
  returns the stage as the call leaves it, with the exception raised, if any.
\<close>

definition patch_method_setting ::
  "builtins \<Rightarrow> string \<Rightarrow> string \<Rightarrow> string \<Rightarrow> Stage \<Rightarrow> Stage \<times> error option" where
  "patch_method_setting B resource_path_and_method key val s =
     (case method_settings_translations key of
        None \<Rightarrow> (s, None)
      | Some updated_key \<Rightarrow>
          (let ms = (case map_of (methodSettings s) resource_path_and_method of
                       None \<Rightarrow> AList.update resource_path_and_method
                                 get_default_method_settings (methodSettings s)
                     | Some _ \<Rightarrow> methodSettings s);
               s1 = s\<lparr>methodSettings := ms\<rparr>
           in (case convert_to_type B updated_key val of
                 Inl e \<Rightarrow> (s1, Some e)
               | Inr v \<Rightarrow>
                   (case map_of ms resource_path_and_method of
                      None \<Rightarrow> (s1, Some KeyError)
                    | Some settings \<Rightarrow>
                        (s1\<lparr>methodSettings :=
                              AList.update resource_path_and_method
                                (AList.update updated_key v settings) ms\<rparr>, None)))))"

definition apply_operation_to_variables :: "patch_op \<Rightarrow> Stage \<Rightarrow> Stage \<times> error option" where
  "apply_operation_to_variables p s =
     (case rindex (path p) ''variables/'' of
        None \<Rightarrow> (s, Some ValueError)
      | Some i \<Rightarrow>
          let key = drop (i + 10) (path p) in
          if op p = ''remove'' then (s\<lparr>variables := AList.delete key (variables s)\<rparr>, None)
          else if op p = ''replace'' then
            (case value p of
               None \<Rightarrow> (s, Some KeyError)
             | Some v \<Rightarrow> (s\<lparr>variables := AList.update key v (variables s)\<rparr>, None))
          else (s, Some (PatchNotImplemented (op p))))"

text \<open>The body of the loop of \<^verbatim>\<open>Stage.apply_operations\<close> for one operation.\<close>

definition apply_operation :: "builtins \<Rightarrow> patch_op \<Rightarrow> Stage \<Rightarrow> Stage \<times> error option" where
  "apply_operation B p s =
     (if str_in ''variables/'' (path p) then apply_operation_to_variables p s
      else if str_in ''/cacheClusterEnabled'' (path p) then
        (case value p of
           None \<Rightarrow> (s, Some KeyError)
         | Some v \<Rightarrow>
             let s1 = s\<lparr>cacheClusterEnabled := Some (str2bool v)\<rparr> in
             if cacheClusterSize s1 = None \<and> cacheClusterEnabled s1 = Some True
             then (s1\<lparr>cacheClusterSize := Some ''0.5''\<rparr>, None)
             else (s1, None))
      else if str_in ''/cacheClusterSize'' (path p) then
        (case value p of
           None \<Rightarrow> (s, Some KeyError)
         | Some v \<Rightarrow>
             (case py_float B v of
                None \<Rightarrow> (s, Some ValueError)
              | Some x \<Rightarrow> (s\<lparr>cacheClusterSize := Some (py_str_float B x)\<rparr>, None)))
      else if str_in ''/description'' (path p) then
        (case value p of
           None \<Rightarrow> (s, Some KeyError)
         | Some v \<Rightarrow> (s\<lparr>description := v\<rparr>, None))
      else if str_in ''/deploymentId'' (path p) then
        (case value p of
           None \<Rightarrow> (s, Some KeyError)
         | Some v \<Rightarrow> (s\<lparr>deploymentId := Some v\<rparr>, None))
      else if op p = ''replace'' then
        (let split_path = split_max CHR ''/'' 3 (path p) in
         if length split_path \<noteq> 4 then (s, None)
         else
           (case value p of
              None \<Rightarrow> (s, Some KeyError)
            | Some v \<Rightarrow>
                patch_method_setting B
                  (split_path ! 1 @ ''/'' @ split_path ! 2) (split_path ! 3) v s))
      else (s, Some (PatchNotImplemented (op p))))"

text \<open>
  \<^verbatim>\<open>Stage.apply_operations\<close>: the \<^verbatim>\<open>for\<close> loop. An exception leaves the loop; the
  stage keeps what the earlier operations did.
\<close>

fun apply_operations :: "builtins \<Rightarrow> patch_op list \<Rightarrow> Stage \<Rightarrow> Stage \<times> error option" where
  "apply_operations B [] s = (s, None)"
| "apply_operations B (p # ps) s =
     (case apply_operation B p s of
        (s', Some e) \<Rightarrow> (s', Some e)
      | (s', None) \<Rightarrow> apply_operations B ps s')"

section \<open>Methods, integrations and the resource tree\<close>

text \<open>
  A dictionary key that may be missing, hold Python's \<^verbatim>\<open>None\<close>, or hold a value:
  \<^verbatim>\<open>Method.__init__\<close> stores \<^verbatim>\<open>methodIntegration=None\<close>, \<^verbatim>\<open>add_integration\<close> stores
  an integration, \<^verbatim>\<open>delete_integration\<close> pops the key.
\<close>

datatype 'a slot = Absent | PyNone | Present 'a

text \<open>\<^verbatim>\<open>class IntegrationResponse(BaseModel, dict)\<close>\<close>

record IntegrationResponse =
  responseTemplates :: "(string \<times> string option) list"
  statusCode :: pyval
  selectionPattern :: "string option"
  contentHandling :: "string option"

definition IntegrationResponse_init ::
  "pyval \<Rightarrow> string option \<Rightarrow> (string \<times> string option) list option \<Rightarrow> string option
     \<Rightarrow> IntegrationResponse" where
  "IntegrationResponse_init status_code selection_pattern response_templates content_handling =
     \<lparr> responseTemplates =
         (case response_templates of None \<Rightarrow> [(''application/json'', None)] | Some t \<Rightarrow> t),
       statusCode = status_code,
       selectionPattern = (if truthy selection_pattern then selection_pattern else None),
       contentHandling = (if truthy content_handling then content_handling else None) \<rparr>"

text \<open>\<^verbatim>\<open>class Integration(BaseModel, dict)\<close>\<close>

record Integration =
  integration_type :: string
  uri :: string
  integration_httpMethod :: string
  requestTemplates :: "(string \<times> string) list option"
  integrationResponses :: "(string \<times> IntegrationResponse) list"

definition Integration_init ::
  "string \<Rightarrow> string \<Rightarrow> string \<Rightarrow> (string \<times> string) list option \<Rightarrow> Integration" where
  "Integration_init itype u http_method request_templates =
     \<lparr> integration_type = itype, uri = u, integration_httpMethod = http_method,
       requestTemplates = request_templates,
       integrationResponses =
         [(''200'', IntegrationResponse_init (VInt 200) None None None)] \<rparr>"

text \<open>
  \<^verbatim>\<open>class Method(BaseModel, dict)\<close>. The keys \<^verbatim>\<open>authorizerId\<close>,
  \<^verbatim>\<open>requestParameters\<close> and \<^verbatim>\<open>requestModels\<close> always hold \<^verbatim>\<open>None\<close> and
  \<^verbatim>\<open>method_responses\<close> is read by no operation below; they are left out.
\<close>

record Method =
  httpMethod :: string
  authorizationType :: "string option"
  apiKeyRequired :: bool
  methodIntegration :: "Integration slot"

definition Method_init :: "string \<Rightarrow> string option \<Rightarrow> bool option \<Rightarrow> Method" where
  "Method_init method_type authorization_type api_key_required =
     \<lparr> httpMethod = method_type, authorizationType = authorization_type,
       apiKeyRequired = (case api_key_required of Some True \<Rightarrow> True | _ \<Rightarrow> False),
       methodIntegration = PyNone \<rparr>"

text \<open>\<^verbatim>\<open>class Resource(BaseModel)\<close>\<close>

record Resource =
  resource_id :: string
  resource_region_name :: string
  api_id :: string
  path_part :: string
  parent_id :: "string option"
  resource_methods :: "(string \<times> Method) list"

text \<open>\<^verbatim>\<open>class Deployment(BaseModel, dict)\<close>\<close>

record Deployment =
  deployment_id :: string
  deployment_stageName :: string
  deployment_description :: string
  createdDate :: int

text \<open>
  \<^verbatim>\<open>class RestAPI(BaseModel)\<close>, with the attributes the operations below read or
  write (\<^verbatim>\<open>policy\<close>, \<^verbatim>\<open>endpoint_configuration\<close>, \<^verbatim>\<open>tags\<close>, \<^verbatim>\<open>authorizers\<close> and
  \<^verbatim>\<open>models\<close> are left out).
\<close>

record RestAPI =
  rest_api_id :: string
  rest_api_region_name :: string
  name :: string
  rest_api_description :: string
  create_date :: int
  api_key_source :: string
  deployments :: "(string \<times> Deployment) list"
  stages :: "(string \<times> Stage) list"
  resources :: "(string \<times> Resource) list"

text \<open>\<^verbatim>\<open>class ApiKey(BaseModel, dict)\<close> and the payload of \<^verbatim>\<open>create_apikey\<close>\<close>

record ApiKey =
  key_id :: string
  key_value :: string
  key_name :: "string option"
  customerId :: "string option"
  key_description :: "string option"
  enabled :: bool
  key_createdDate :: int
  lastUpdatedDate :: int
  stageKeys :: "string list"
  tags :: "(string \<times> string) list option"

record apikey_payload =
  payload_name :: "string option"
  payload_description :: "string option"
  payload_enabled :: "bool option"
  payload_generateDistinctId :: "bool option"
  payload_value :: "string option"
  payload_stageKeys :: "string list option"
  payload_tags :: "(string \<times> string) list option"
  payload_customerId :: "string option"

text \<open>\<^verbatim>\<open>class UsagePlanKey(BaseModel, dict)\<close>\<close>

record UsagePlanKey =
  plan_key_id :: string
  plan_key_name :: "string option"
  plan_key_type :: string
  plan_key_value :: string

text \<open>
  \<^verbatim>\<open>class APIGatewayBackend(BaseBackend)\<close>, with the collections the operations below
  read or write (\<^verbatim>\<open>usage_plans\<close>, \<^verbatim>\<open>domain_names\<close> and \<^verbatim>\<open>models\<close> are left out).
\<close>

record backend =
  apis :: "(string \<times> RestAPI) list"
  keys :: "(string \<times> ApiKey) list"
  usage_plan_keys :: "(string \<times> (string \<times> UsagePlanKey) list) list"
  region_name :: string

text \<open>\<^verbatim>\<open>apigateway_backends\<close>, the registry of one backend per region.\<close>

type_synonym registry = "(string \<times> backend) list"

text \<open>
  What the module takes from outside: \<^verbatim>\<open>ACCOUNT_ID\<close> of \<^verbatim>\<open>moto.sts.models\<close>, and
  \<^verbatim>\<open>_uri_validator\<close>, which is \<^verbatim>\<open>urlparse\<close> of the standard library giving a scheme, a
  host and a path.
\<close>

record environment =
  ACCOUNT_ID :: string
  uri_validator :: "string \<Rightarrow> bool"

definition get_rest_api :: "backend \<Rightarrow> string \<Rightarrow> error + RestAPI" where
  "get_rest_api b function_id =
     (case map_of (apis b) function_id of
        None \<Rightarrow> Inl RestAPINotFound
      | Some rest_api \<Rightarrow> Inr rest_api)"

definition list_resources :: "backend \<Rightarrow> string \<Rightarrow> error + Resource list" where
  "list_resources b function_id =
     (case get_rest_api b function_id of
        Inl e \<Rightarrow> Inl e
      | Inr api \<Rightarrow> Inr (map snd (resources api)))"

definition get_resource :: "backend \<Rightarrow> string \<Rightarrow> string \<Rightarrow> error + Resource" where
  "get_resource b function_id rid =
     (case get_rest_api b function_id of
        Inl e \<Rightarrow> Inl e
      | Inr api \<Rightarrow>
          (case map_of (resources api) rid of
             None \<Rightarrow> Inl KeyError
           | Some resource \<Rightarrow> Inr resource))"

text \<open>
  \<^verbatim>\<open>Resource.get_parent_path\<close> and \<^verbatim>\<open>Resource.get_path\<close> call each other up the
  chain of parents, which the model follows for as long as it goes on: a chain that
  never ends gives no result, \<open>None\<close> (Python gives up such a chain with a
  RecursionError). The recursion is written on \<^verbatim>\<open>get_parent_path\<close>, with the parent's
  \<^verbatim>\<open>get_path()\<close> (its parent path followed by its path part) in place;
  \<open>get_parent_path_unfold\<close> below gives the source's own equation. The registry is
  \<^verbatim>\<open>apigateway_backends\<close>, read at \<^verbatim>\<open>self.region_name\<close>.
\<close>

partial_function (option) get_parent_path :: "registry \<Rightarrow> Resource \<Rightarrow> (error + string) option"
where
  "get_parent_path G r =
     (if truthy (parent_id r) then
        (case map_of G (resource_region_name r) of
           None \<Rightarrow> Some (Inl KeyError)
         | Some b \<Rightarrow>
             (case get_resource b (api_id r) (case parent_id r of Some p \<Rightarrow> p | None \<Rightarrow> []) of
                Inl e \<Rightarrow> Some (Inl e)
              | Inr parent \<Rightarrow>
                  Option.bind (get_parent_path G parent)
                    (\<lambda>res. case res of
                       Inl e \<Rightarrow> Some (Inl e)
                     | Inr pp \<Rightarrow>
                         Some (Inr (if pp @ path_part parent \<noteq> ''/''
                                    then (pp @ path_part parent) @ ''/''
                                    else pp @ path_part parent)))))
      else Some (Inr []))"

definition get_path :: "registry \<Rightarrow> Resource \<Rightarrow> (error + string) option" where
  "get_path G r =
     Option.bind (get_parent_path G r)
       (\<lambda>res. case res of
          Inl e \<Rightarrow> Some (Inl e)
        | Inr pp \<Rightarrow> Some (Inr (pp @ path_part r)))"

text \<open>
  \<^verbatim>\<open>RestAPI.add_child\<close>. \<^verbatim>\<open>create_id()\<close> comes from \<^verbatim>\<open>.utils\<close> and is random: the
  identifier it returns is the argument \<open>child_id\<close>.
\<close>

definition add_child :: "RestAPI \<Rightarrow> string \<Rightarrow> string \<Rightarrow> string option \<Rightarrow> Resource \<times> RestAPI" where
  "add_child api child_id pth parent =
     (let child = \<lparr> resource_id = child_id, resource_region_name = rest_api_region_name api,
                    api_id = rest_api_id api, path_part = pth, parent_id = parent,
                    resource_methods = [] \<rparr>
      in (child, api\<lparr>resources := AList.update child_id child (resources api)\<rparr>))"

text \<open>\<^verbatim>\<open>RestAPI.__init__\<close>; \<open>now\<close> is \<^verbatim>\<open>int(time.time())\<close>.\<close>

definition RestAPI_init ::
  "string \<Rightarrow> string \<Rightarrow> string \<Rightarrow> string \<Rightarrow> string option \<Rightarrow> int \<Rightarrow> string \<Rightarrow> RestAPI" where
  "RestAPI_init ident region nm descr key_source now root_id =
     snd (add_child
       \<lparr> rest_api_id = ident, rest_api_region_name = region, name = nm,
         rest_api_description = descr, create_date = now,
         api_key_source = (case key_source of
                             Some k \<Rightarrow> if k = [] then ''HEADER'' else k
                           | None \<Rightarrow> ''HEADER''),
         deployments = [], stages = [], resources = [] \<rparr> root_id ''/'' None)"

text \<open>
  \<^verbatim>\<open>RestAPI.get_resource_for_path\<close>: the loop over \<^verbatim>\<open>self.resources.values()\<close>.
  Leaving the loop returns Python's \<^verbatim>\<open>None\<close>, which is \<open>Inr None\<close> here.
\<close>

fun scan_resources :: "registry \<Rightarrow> string \<Rightarrow> Resource list \<Rightarrow> (error + Resource option) option"
where
  "scan_resources G path_after_stage_name [] = Some (Inr None)"
| "scan_resources G path_after_stage_name (resource # rest) =
     (case get_path G resource of
        None \<Rightarrow> None
      | Some (Inl e) \<Rightarrow> Some (Inl e)
      | Some (Inr p) \<Rightarrow>
          if p = path_after_stage_name then Some (Inr (Some resource))
          else scan_resources G path_after_stage_name rest)"

definition get_resource_for_path ::
  "registry \<Rightarrow> RestAPI \<Rightarrow> string \<Rightarrow> (error + Resource option) option" where
  "get_resource_for_path G api path_after_stage_name =
     scan_resources G path_after_stage_name (map snd (resources api))"

section \<open>Operations of the backend\<close>

text \<open>
  A method of \<^verbatim>\<open>APIGatewayBackend\<close> takes the backend and returns what the call
  returns or raises, with the backend as the call leaves it. Identifiers
  (\<^verbatim>\<open>create_id()\<close>), the clock (\<^verbatim>\<open>int(time.time())\<close>) and the random key value are
  arguments.
\<close>

text \<open>\<^verbatim>\<open>APIGatewayBackend.create_rest_api\<close>\<close>

definition create_rest_api ::
  "backend \<Rightarrow> string \<Rightarrow> string \<Rightarrow> string option \<Rightarrow> string \<Rightarrow> string \<Rightarrow> int
     \<Rightarrow> RestAPI \<times> backend" where
  "create_rest_api b nm descr key_source new_api_id root_id now =
     (let rest_api = RestAPI_init new_api_id (region_name b) nm descr key_source now root_id
      in (rest_api, b\<lparr>apis := AList.update new_api_id rest_api (apis b)\<rparr>))"

text \<open>\<^verbatim>\<open>APIGatewayBackend.create_resource\<close>\<close>

definition create_resource ::
  "backend \<Rightarrow> string \<Rightarrow> string option \<Rightarrow> string \<Rightarrow> string \<Rightarrow> (error + Resource) \<times> backend"
where
  "create_resource b function_id parent_resource_id pth child_id =
     (if \<not> re_match path_part_pattern pth then (Inl InvalidResourcePathException, b)
      else
        (case get_rest_api b function_id of
           Inl e \<Rightarrow> (Inl e, b)
         | Inr api \<Rightarrow>
             (case add_child api child_id pth parent_resource_id of
                (child, api') \<Rightarrow>
                  (Inr child, b\<lparr>apis := AList.update function_id api' (apis b)\<rparr>))))"

text \<open>
  Writing a changed resource back: the resource is an object held by
  \<^verbatim>\<open>api.resources[resource_id]\<close>, so a change to it is a change there.
\<close>

definition put_resource :: "backend \<Rightarrow> string \<Rightarrow> string \<Rightarrow> Resource \<Rightarrow> backend" where
  "put_resource b function_id rid r =
     (case map_of (apis b) function_id of
        None \<Rightarrow> b
      | Some api \<Rightarrow>
          b\<lparr>apis := AList.update function_id
                       (api\<lparr>resources := AList.update rid r (resources api)\<rparr>) (apis b)\<rparr>)"

text \<open>\<^verbatim>\<open>Resource.add_method\<close> and \<^verbatim>\<open>APIGatewayBackend.create_method\<close>\<close>

definition add_method :: "Resource \<Rightarrow> string \<Rightarrow> string option \<Rightarrow> bool option \<Rightarrow> Method \<times> Resource"
where
  "add_method r method_type authorization_type api_key_required =
     (let method = Method_init method_type authorization_type api_key_required
      in (method, r\<lparr>resource_methods := AList.update method_type method (resource_methods r)\<rparr>))"

definition create_method ::
  "backend \<Rightarrow> string \<Rightarrow> string \<Rightarrow> string \<Rightarrow> string option \<Rightarrow> bool option
     \<Rightarrow> (error + Method) \<times> backend" where
  "create_method b function_id rid method_type authorization_type api_key_required =
     (case get_resource b function_id rid of
        Inl e \<Rightarrow> (Inl e, b)
      | Inr resource \<Rightarrow>
          (case add_method resource method_type authorization_type api_key_required of
             (method, resource') \<Rightarrow> (Inr method, put_resource b function_id rid resource')))"

text \<open>\<^verbatim>\<open>Resource.add_integration\<close> and \<^verbatim>\<open>Resource.delete_integration\<close>\<close>

definition add_integration ::
  "Resource \<Rightarrow> string \<Rightarrow> string \<Rightarrow> string \<Rightarrow> (string \<times> string) list option
     \<Rightarrow> error + Integration \<times> Resource" where
  "add_integration r method_type itype u request_templates =
     (let integration = Integration_init itype u method_type request_templates in
      case map_of (resource_methods r) method_type of
        None \<Rightarrow> Inl KeyError
      | Some method \<Rightarrow>
          Inr (integration,
               r\<lparr>resource_methods :=
                   AList.update method_type (method\<lparr>methodIntegration := Present integration\<rparr>)
                     (resource_methods r)\<rparr>))"

definition delete_integration :: "Resource \<Rightarrow> string \<Rightarrow> error + Integration option \<times> Resource"
where
  "delete_integration r method_type =
     (case map_of (resource_methods r) method_type of
        None \<Rightarrow> Inl KeyError
      | Some method \<Rightarrow>
          (case methodIntegration method of
             Absent \<Rightarrow> Inl KeyError
           | PyNone \<Rightarrow>
               Inr (None, r\<lparr>resource_methods :=
                     AList.update method_type (method\<lparr>methodIntegration := Absent\<rparr>)
                       (resource_methods r)\<rparr>)
           | Present i \<Rightarrow>
               Inr (Some i, r\<lparr>resource_methods :=
                     AList.update method_type (method\<lparr>methodIntegration := Absent\<rparr>)
                       (resource_methods r)\<rparr>)))"

text \<open>\<^verbatim>\<open>APIGatewayBackend.create_integration\<close>, its checks in the order of the source.\<close>

definition create_integration ::
  "environment \<Rightarrow> backend \<Rightarrow> string \<Rightarrow> string \<Rightarrow> string \<Rightarrow> string \<Rightarrow> string
     \<Rightarrow> string option \<Rightarrow> string option \<Rightarrow> (string \<times> string) list option
     \<Rightarrow> (error + Integration) \<times> backend" where
  "create_integration E b function_id rid method_type itype u integration_method credentials
       request_templates =
     (case get_resource b function_id rid of
        Inl e \<Rightarrow> (Inl e, b)
      | Inr resource \<Rightarrow>
          if truthy credentials
             \<and> \<not> re_match (iam_arn_pattern (ACCOUNT_ID E))
                   (case credentials of Some c \<Rightarrow> c | None \<Rightarrow> [])
          then (Inl CrossAccountNotAllowed, b)
          else if \<not> truthy integration_method
                  \<and> itype \<in> set [''HTTP'', ''HTTP_PROXY'', ''AWS'', ''AWS_PROXY'']
          then (Inl IntegrationMethodNotDefined, b)
          else if itype \<in> set [''AWS_PROXY''] \<and> re_match s3_arn_pattern u
          then (Inl AwsProxyNotAllowed, b)
          else if itype \<in> set [''AWS''] \<and> re_match s3_arn_pattern u \<and> \<not> truthy credentials
          then (Inl RoleNotSpecified, b)
          else if itype \<in> set [''HTTP'', ''HTTP_PROXY''] \<and> \<not> uri_validator E u
          then (Inl InvalidHttpEndpoint, b)
          else if itype \<in> set [''AWS'', ''AWS_PROXY''] \<and> \<not> re_match aws_arn_pattern u
          then (Inl InvalidArn, b)
          else if itype \<in> set [''AWS'', ''AWS_PROXY''] \<and> \<not> re_match integration_arn_pattern u
          then (Inl InvalidIntegrationArn, b)
          else
            (case add_integration resource method_type itype u request_templates of
               Inl e \<Rightarrow> (Inl e, b)
             | Inr (integration, resource') \<Rightarrow>
                 (Inr integration, put_resource b function_id rid resource')))"

text \<open>
  \<^verbatim>\<open>RestAPI.create_deployment\<close>. \<^verbatim>\<open>update_integration_mocks\<close> registers callbacks with
  the \<^verbatim>\<open>responses\<close> library and changes nothing of the API; it is left out.
\<close>

definition RestAPI_create_deployment ::
  "RestAPI \<Rightarrow> string \<Rightarrow> string \<Rightarrow> (string \<times> string) list option \<Rightarrow> string \<Rightarrow> int
     \<Rightarrow> Deployment \<times> RestAPI" where
  "RestAPI_create_deployment api nm descr stage_variables new_id now =
     (let stage_vars = (case stage_variables of None \<Rightarrow> [] | Some v \<Rightarrow> v);
          deployment = \<lparr> deployment_id = new_id, deployment_stageName = nm,
                         deployment_description = descr, createdDate = now \<rparr>
      in (deployment,
          api\<lparr>deployments := AList.update new_id deployment (deployments api),
              stages := AList.update nm
                          (Stage_init (Some nm) (Some new_id) (Some stage_vars) [] (Some False) None)
                          (stages api)\<rparr>))"

text \<open>
  Python's \<^verbatim>\<open>any\<close> over the methods and over their integrations. A \<^verbatim>\<open>Method\<close> is a
  dictionary that always holds its \<^verbatim>\<open>httpMethod\<close> key and an \<^verbatim>\<open>Integration\<close> one that
  always holds its \<^verbatim>\<open>type\<close> key, so both are true values; \<^verbatim>\<open>None\<close> is false.
\<close>

definition method_truth :: "Method \<Rightarrow> bool" where
  "method_truth m = True"

definition integration_truth :: "Integration option \<Rightarrow> bool" where
  "integration_truth i = (case i of None \<Rightarrow> False | Some _ \<Rightarrow> True)"

text \<open>
  \<^verbatim>\<open>APIGatewayBackend.create_deployment\<close>. The comprehension lists the methods of
  every resource and \<^verbatim>\<open>[0]\<close> takes the list of the first resource.
\<close>

definition create_deployment ::
  "backend \<Rightarrow> string \<Rightarrow> string \<Rightarrow> string \<Rightarrow> (string \<times> string) list option \<Rightarrow> string \<Rightarrow> int
     \<Rightarrow> (error + Deployment) \<times> backend" where
  "create_deployment b function_id nm descr stage_variables new_id now =
     (case get_rest_api b function_id of
        Inl e \<Rightarrow> (Inl e, b)
      | Inr api \<Rightarrow>
          (case list_resources b function_id of
             Inl e \<Rightarrow> (Inl e, b)
           | Inr rs \<Rightarrow>
               (case map (\<lambda>res. map snd (resource_methods res)) rs of
                  [] \<Rightarrow> (Inl IndexError, b)
                | methods # _ \<Rightarrow>
                    if \<not> list_ex method_truth methods then (Inl NoMethodDefined, b)
                    else
                      let method_integrations =
                            map (\<lambda>method. case methodIntegration method of
                                             Present i \<Rightarrow> Some i
                                           | PyNone \<Rightarrow> None
                                           | Absent \<Rightarrow> None) methods
                      in if \<not> list_ex integration_truth method_integrations
                         then (Inl NoIntegrationDefined, b)
                         else
                           (case RestAPI_create_deployment api nm descr stage_variables
                                   new_id now of
                              (deployment, api') \<Rightarrow>
                                (Inr deployment,
                                 b\<lparr>apis := AList.update function_id api' (apis b)\<rparr>)))))"

text \<open>\<^verbatim>\<open>ApiKey.__init__\<close>; \<open>random_value\<close> is the 40 characters \<^verbatim>\<open>random.sample\<close> draws.\<close>

definition ApiKey_init :: "apikey_payload \<Rightarrow> string \<Rightarrow> string \<Rightarrow> int \<Rightarrow> ApiKey" where
  "ApiKey_init payload new_id random_value now =
     \<lparr> key_id = new_id,
       key_value = (case payload_value payload of
                      Some v \<Rightarrow> if v \<noteq> [] then v else random_value
                    | None \<Rightarrow> random_value),
       key_name = payload_name payload,
       customerId = payload_customerId payload,
       key_description = payload_description payload,
       enabled = (case payload_enabled payload of Some e \<Rightarrow> e | None \<Rightarrow> False),
       key_createdDate = now,
       lastUpdatedDate = now,
       stageKeys = (case payload_stageKeys payload of Some ks \<Rightarrow> ks | None \<Rightarrow> []),
       tags = payload_tags payload \<rparr>"

definition get_apikeys :: "backend \<Rightarrow> ApiKey list" where
  "get_apikeys b = map snd (keys b)"

text \<open>\<^verbatim>\<open>APIGatewayBackend.create_apikey\<close>\<close>

definition create_apikey ::
  "backend \<Rightarrow> apikey_payload \<Rightarrow> string \<Rightarrow> string \<Rightarrow> int \<Rightarrow> (error + ApiKey) \<times> backend" where
  "create_apikey b payload new_id random_value now =
     (if (case payload_value payload of
            None \<Rightarrow> False
          | Some v \<Rightarrow> list_ex (\<lambda>api_key. key_value api_key = v) (get_apikeys b))
      then (Inl ApiKeyAlreadyExists, b)
      else
        let key = ApiKey_init payload new_id random_value now
        in (Inr key, b\<lparr>keys := AList.update (key_id key) key (keys b)\<rparr>))"

text \<open>
  \<^verbatim>\<open>APIGatewayBackend.create_usage_plan_key\<close>; the payload is a dictionary of
  strings. The collection of the plan is created first, then the key is looked up.
\<close>

definition create_usage_plan_key ::
  "backend \<Rightarrow> string \<Rightarrow> (string \<times> string) list \<Rightarrow> (error + UsagePlanKey) \<times> backend" where
  "create_usage_plan_key b usage_plan_id payload =
     (let b1 = (if map_of (usage_plan_keys b) usage_plan_id = None
                then b\<lparr>usage_plan_keys := AList.update usage_plan_id [] (usage_plan_keys b)\<rparr>
                else b)
      in case map_of payload ''keyId'' of
           None \<Rightarrow> (Inl KeyError, b1)
         | Some kid \<Rightarrow>
             (case map_of (keys b1) kid of
                None \<Rightarrow> (Inl ApiKeyNotFoundException, b1)
              | Some api_key \<Rightarrow>
                  (case map_of payload ''keyType'' of
                     None \<Rightarrow> (Inl KeyError, b1)
                   | Some ktype \<Rightarrow>
                       let usage_plan_key =
                             \<lparr> plan_key_id = kid, plan_key_name = key_name api_key,
                               plan_key_type = ktype, plan_key_value = key_value api_key \<rparr>
                       in (case map_of (usage_plan_keys b1) usage_plan_id of
                             None \<Rightarrow> (Inl KeyError, b1)
                           | Some plan_keys \<Rightarrow>
                               (Inr usage_plan_key,
                                b1\<lparr>usage_plan_keys :=
                                     AList.update usage_plan_id
                                       (AList.update (plan_key_id usage_plan_key)
                                          usage_plan_key plan_keys)
                                       (usage_plan_keys b1)\<rparr>)))))"

text \<open>\<^verbatim>\<open>APIGatewayBackend.get_usage_plan_keys\<close>\<close>

definition get_usage_plan_keys :: "backend \<Rightarrow> string \<Rightarrow> UsagePlanKey list" where
  "get_usage_plan_keys b usage_plan_id =
     (case map_of (usage_plan_keys b) usage_plan_id of
        None \<Rightarrow> []
      | Some plan_keys \<Rightarrow> map snd plan_keys)"

section \<open>Predicates of the statements\<close>

text \<open>
  The operations \<^verbatim>\<open>Stage.apply_operations\<close> answers with
  \<^verbatim>\<open>Exception('Patch operation "%s" not implemented')\<close>: under \<^verbatim>\<open>variables/\<close> an op that
  is neither \<^verbatim>\<open>remove\<close> nor \<^verbatim>\<open>replace\<close>; elsewhere a path with none of the known
  fields and an op that is not \<^verbatim>\<open>replace\<close>.
\<close>

definition unrecognized :: "patch_op \<Rightarrow> bool" where
  "unrecognized p =
     (if str_in ''variables/'' (path p) then op p \<noteq> ''remove'' \<and> op p \<noteq> ''replace''
      else \<not> str_in ''/cacheClusterEnabled'' (path p) \<and> \<not> str_in ''/cacheClusterSize'' (path p)
           \<and> \<not> str_in ''/description'' (path p) \<and> \<not> str_in ''/deploymentId'' (path p)
           \<and> op p \<noteq> ''replace'')"

text \<open>
  A resource whose chain of parents resolves in the registry and ends, after \<open>n\<close>
  steps, at a resource without a parent.
\<close>

fun parent_chain :: "nat \<Rightarrow> registry \<Rightarrow> Resource \<Rightarrow> bool" where
  "parent_chain 0 G r = (\<not> truthy (parent_id r))"
| "parent_chain (Suc n) G r =
     (truthy (parent_id r) \<and>
      (case map_of G (resource_region_name r) of
         None \<Rightarrow> False
       | Some b \<Rightarrow>
           (case get_resource b (api_id r) (case parent_id r of Some p \<Rightarrow> p | None \<Rightarrow> []) of
              Inl e \<Rightarrow> False
            | Inr parent \<Rightarrow> parent_chain n G parent)))"

section \<open>Example states\<close>

text \<open>
  An instance of the builtins on plain decimal text, where it agrees with Python:
  \<^verbatim>\<open>int("500")\<close> is 500 and \<^verbatim>\<open>float("500")\<close> is 500.0.
\<close>

fun digits_value :: "string \<Rightarrow> nat \<Rightarrow> nat option" where
  "digits_value [] acc = Some acc"
| "digits_value (c # cs) acc =
     (if in_range CHR ''0'' CHR ''9'' c
      then digits_value cs (10 * acc + (of_char c - 48)) else None)"

definition plain_builtins :: builtins where
  "plain_builtins =
     \<lparr> py_int = (\<lambda>s. if s = [] then None else map_option int (digits_value s 0)),
       py_float = (\<lambda>s. if s = [] then None else map_option real (digits_value s 0)),
       py_str_float = (\<lambda>x. if x = 1 / 2 then ''0.5'' else ''1.0'') \<rparr>"

definition new_stage :: Stage where
  "new_stage = Stage_init (Some ''prod'') (Some ''d1'') None [] (Some False) None"

definition sample_environment :: environment where
  "sample_environment =
     \<lparr> ACCOUNT_ID = ''123456789012'',
       uri_validator = (\<lambda>u. startswith u ''http://'' \<or> startswith u ''https://'') \<rparr>"

text \<open>
  A backend built by the operations themselves: an API, the resource \<^verbatim>\<open>/pets\<close> under
  its root, the method \<^verbatim>\<open>GET\<close> on \<^verbatim>\<open>/pets\<close>, and an integration of that method.
\<close>

definition empty_backend :: backend where
  "empty_backend = \<lparr> apis = [], keys = [], usage_plan_keys = [], region_name = ''us-east-1'' \<rparr>"

definition api_backend :: backend where
  "api_backend = snd (create_rest_api empty_backend ''pets-api'' ''demo'' None ''a1'' ''r0'' 0)"

definition pets_backend :: backend where
  "pets_backend = snd (create_resource api_backend ''a1'' (Some ''r0'') ''pets'' ''r1'')"

definition method_backend :: backend where
  "method_backend = snd (create_method pets_backend ''a1'' ''r1'' ''GET'' (Some ''NONE'') None)"

definition integration_backend :: backend where
  "integration_backend =
     snd (create_integration sample_environment method_backend ''a1'' ''r1'' ''GET'' ''MOCK''
            ''http://example.com/pets'' None None None)"

definition root_resource :: Resource where
  "root_resource =
     \<lparr> resource_id = ''r0'', resource_region_name = ''us-east-1'', api_id = ''a1'',
       path_part = ''/'', parent_id = None, resource_methods = [] \<rparr>"

definition pets_resource :: Resource where
  "pets_resource =
     \<lparr> resource_id = ''r1'', resource_region_name = ''us-east-1'', api_id = ''a1'',
       path_part = ''pets'', parent_id = Some ''r0'', resource_methods = [] \<rparr>"

definition sample_payload :: apikey_payload where
  "sample_payload =
     \<lparr> payload_name = Some ''key-one'', payload_description = None, payload_enabled = Some True,
       payload_generateDistinctId = None, payload_value = Some ''0123456789abcdefghij'',
       payload_stageKeys = None, payload_tags = None, payload_customerId = None \<rparr>"

definition keyed_backend :: backend where
  "keyed_backend =
     snd (create_apikey empty_backend sample_payload ''k1''
            ''ABCDEFGHIJKLMNOPQRSTUVWXYZabcdefghijklmn'' 0)"

section \<open>Dictionaries\<close>

lemma update_fresh: "map_of xs k = None \<Longrightarrow> AList.update k v xs = xs @ [(k, v)]"
  by (induction xs) (auto split: if_splits)

lemma update_last:
  "map_of xs k = None \<Longrightarrow> AList.update k w (xs @ [(k, v)]) = xs @ [(k, w)]"
  by (induction xs) (auto split: if_splits)

section \<open>The example states, evaluated\<close>

lemma new_stage_value:
  "new_stage =
     \<lparr> stageName = Some ''prod'', deploymentId = Some ''d1'', methodSettings = [],
       variables = [], description = [], cacheClusterEnabled = Some False,
       cacheClusterSize = None \<rparr>"
  by (simp add: new_stage_def Stage_init_def)

lemma plain_float_500: "py_float plain_builtins ''500'' = Some 500"
  by (simp add: plain_builtins_def in_range_def)

lemma api_backend_value:
  "api_backend =
     \<lparr> apis = [(''a1'',
         \<lparr> rest_api_id = ''a1'', rest_api_region_name = ''us-east-1'', name = ''pets-api'',
           rest_api_description = ''demo'', create_date = 0, api_key_source = ''HEADER'',
           deployments = [], stages = [],
           resources = [(''r0'',
             \<lparr> resource_id = ''r0'', resource_region_name = ''us-east-1'', api_id = ''a1'',
               path_part = ''/'', parent_id = None, resource_methods = [] \<rparr>)] \<rparr>)],
       keys = [], usage_plan_keys = [], region_name = ''us-east-1'' \<rparr>"
  by (simp add: Let_def api_backend_def create_rest_api_def RestAPI_init_def add_child_def
        empty_backend_def)

lemma pets_path_part_valid: "re_match path_part_pattern ''pets''"
  by (simp add: re_match_def path_part_pattern_def path_class_def in_range_def)

lemma spaced_path_part_invalid: "\<not> re_match path_part_pattern ''a b''"
  by (simp add: re_match_def path_part_pattern_def path_class_def in_range_def)

lemma pets_backend_value:
  "pets_backend =
     \<lparr> apis = [(''a1'',
         \<lparr> rest_api_id = ''a1'', rest_api_region_name = ''us-east-1'', name = ''pets-api'',
           rest_api_description = ''demo'', create_date = 0, api_key_source = ''HEADER'',
           deployments = [], stages = [],
           resources = [(''r0'',
             \<lparr> resource_id = ''r0'', resource_region_name = ''us-east-1'', api_id = ''a1'',
               path_part = ''/'', parent_id = None, resource_methods = [] \<rparr>),
             (''r1'',
             \<lparr> resource_id = ''r1'', resource_region_name = ''us-east-1'', api_id = ''a1'',
               path_part = ''pets'', parent_id = Some ''r0'', resource_methods = [] \<rparr>)] \<rparr>)],
       keys = [], usage_plan_keys = [], region_name = ''us-east-1'' \<rparr>"
  by (simp add: Let_def pets_backend_def api_backend_value create_resource_def
        pets_path_part_valid get_rest_api_def add_child_def)

lemma method_backend_value:
  "method_backend =
     \<lparr> apis = [(''a1'',
         \<lparr> rest_api_id = ''a1'', rest_api_region_name = ''us-east-1'', name = ''pets-api'',
           rest_api_description = ''demo'', create_date = 0, api_key_source = ''HEADER'',
           deployments = [], stages = [],
           resources = [(''r0'',
             \<lparr> resource_id = ''r0'', resource_region_name = ''us-east-1'', api_id = ''a1'',
               path_part = ''/'', parent_id = None, resource_methods = [] \<rparr>),
             (''r1'',
             \<lparr> resource_id = ''r1'', resource_region_name = ''us-east-1'', api_id = ''a1'',
               path_part = ''pets'', parent_id = Some ''r0'',
               resource_methods = [(''GET'',
                 \<lparr> httpMethod = ''GET'', authorizationType = Some ''NONE'',
                   apiKeyRequired = False, methodIntegration = PyNone \<rparr>)] \<rparr>)] \<rparr>)],
       keys = [], usage_plan_keys = [], region_name = ''us-east-1'' \<rparr>"
  by (simp add: Let_def method_backend_def pets_backend_value create_method_def get_resource_def
        get_rest_api_def add_method_def Method_init_def put_resource_def)

lemma integration_backend_value:
  "integration_backend =
     \<lparr> apis = [(''a1'',
         \<lparr> rest_api_id = ''a1'', rest_api_region_name = ''us-east-1'', name = ''pets-api'',
           rest_api_description = ''demo'', create_date = 0, api_key_source = ''HEADER'',
           deployments = [], stages = [],
           resources = [(''r0'',
             \<lparr> resource_id = ''r0'', resource_region_name = ''us-east-1'', api_id = ''a1'',
               path_part = ''/'', parent_id = None, resource_methods = [] \<rparr>),
             (''r1'',
             \<lparr> resource_id = ''r1'', resource_region_name = ''us-east-1'', api_id = ''a1'',
               path_part = ''pets'', parent_id = Some ''r0'',
               resource_methods = [(''GET'',
                 \<lparr> httpMethod = ''GET'', authorizationType = Some ''NONE'',
                   apiKeyRequired = False,
                   methodIntegration = Present
                     (Integration_init ''MOCK'' ''http://example.com/pets'' ''GET'' None) \<rparr>)] \<rparr>)] \<rparr>)],
       keys = [], usage_plan_keys = [], region_name = ''us-east-1'' \<rparr>"
  by (simp add: Let_def integration_backend_def method_backend_value create_integration_def
        get_resource_def get_rest_api_def add_integration_def put_resource_def)

lemma keyed_backend_value:
  "keyed_backend =
     \<lparr> apis = [],
       keys = [(''k1'',
         \<lparr> key_id = ''k1'', key_value = ''0123456789abcdefghij'', key_name = Some ''key-one'',
           customerId = None, key_description = None, enabled = True, key_createdDate = 0,
           lastUpdatedDate = 0, stageKeys = [], tags = None \<rparr>)],
       usage_plan_keys = [], region_name = ''us-east-1'' \<rparr>"
  by (simp add: keyed_backend_def create_apikey_def get_apikeys_def ApiKey_init_def
        sample_payload_def empty_backend_def Let_def)

section \<open>Stage patches\<close>

lemma str2bool_true: "str2bool ''true''"
  by (simp add: str2bool_def lower_def lower_char_def)

lemma split_rate_limit_path:
  "split_max CHR ''/'' 3 ''/*/*/throttling/rateLimit'' =
     [[], ''*'', ''*'', ''throttling/rateLimit'']"
  by (simp add: numeral_3_eq_3)



lemma patch_method_setting_errors:
  "patch_method_setting B k key v s = (s', Some e) \<Longrightarrow> e = ValueError \<or> e = KeyError"
  by (auto simp: patch_method_setting_def convert_to_type_def Let_def
           split: option.splits sum.splits if_splits)

text \<open>The failure is raised for the unrecognized operations only, and changes nothing.\<close>

lemma not_implemented_only_unrecognized:
  "apply_operation B p s = (s', Some (PatchNotImplemented x))
     \<Longrightarrow> unrecognized p \<and> x = op p \<and> s' = s"
  by (auto simp: unrecognized_def apply_operation_def apply_operation_to_variables_def Let_def
           split: if_splits option.splits dest: patch_method_setting_errors)


text \<open>
  Claim C9. On a stage with no \<^verbatim>\<open>cacheClusterSize\<close> key, the single operation
  \<^verbatim>\<open>{op: "replace", path: "/cacheClusterEnabled", value: "true"}\<close> sets
  \<^verbatim>\<open>cacheClusterEnabled\<close> to true and \<^verbatim>\<open>cacheClusterSize\<close> to the text \<^verbatim>\<open>"0.5"\<close>, and
  changes nothing else.
\<close>

theorem cacheClusterEnabled_patch_sets_size:
  "cacheClusterSize s = None \<Longrightarrow>
   apply_operations B
       [\<lparr>op = ''replace'', path = ''/cacheClusterEnabled'', value = Some ''true''\<rparr>] s
     = (s\<lparr>cacheClusterEnabled := Some True, cacheClusterSize := Some ''0.5''\<rparr>, None)"
  by (simp add: apply_operation_def str2bool_true)

theorem cacheClusterEnabled_patch_sets_size_witness:
  "cacheClusterSize new_stage = None \<and>
   apply_operations plain_builtins
       [\<lparr>op = ''replace'', path = ''/cacheClusterEnabled'', value = Some ''true''\<rparr>] new_stage
     = (\<lparr> stageName = Some ''prod'', deploymentId = Some ''d1'', methodSettings = [],
          variables = [], description = [], cacheClusterEnabled = Some True,
          cacheClusterSize = Some ''0.5'' \<rparr>, None)"
proof -
  have h: "cacheClusterSize new_stage = None" by (simp add: new_stage_value)
  show ?thesis
    using h cacheClusterEnabled_patch_sets_size [OF h, of plain_builtins]
    by (simp add: new_stage_value)
qed

text \<open>
  Claim C4. On a stage whose \<^verbatim>\<open>methodSettings\<close> has no entry for \<^verbatim>\<open>"*/*"\<close>, the single
  operation \<^verbatim>\<open>{op: "replace", path: "/*/*/throttling/rateLimit", value: "500"}\<close> adds
  the entry \<^verbatim>\<open>"*/*"\<close>, whose fields are the defaults of
  \<^verbatim>\<open>_get_default_method_settings\<close> except \<^verbatim>\<open>throttlingRateLimit\<close>, which is the float
  500.0 (what \<^verbatim>\<open>float("500")\<close> gives), and changes nothing else.
\<close>

theorem rate_limit_patch_materializes_defaults:
  assumes "map_of (methodSettings s) ''*/*'' = None" and "py_float B ''500'' = Some 500"
  shows "apply_operations B
           [\<lparr>op = ''replace'', path = ''/*/*/throttling/rateLimit'', value = Some ''500''\<rparr>] s
     = (s\<lparr>methodSettings := methodSettings s @
           [(''*/*'',
             [(''throttlingRateLimit'', VFloat 500),
              (''dataTraceEnabled'', VBool False),
              (''metricsEnabled'', VBool False),
              (''unauthorizedCacheControlHeaderStrategy'', VStr ''SUCCEED_WITH_RESPONSE_HEADER''),
              (''cacheTtlInSeconds'', VInt 300),
              (''cacheDataEncrypted'', VBool True),
              (''cachingEnabled'', VBool False),
              (''throttlingBurstLimit'', VInt 2000),
              (''requireAuthorizationForCacheControl'', VBool True)])]\<rparr>, None)"
proof -
  have tr: "method_settings_translations ''throttling/rateLimit'' = Some ''throttlingRateLimit''"
    by (simp add: method_settings_translations_def)
  have cv: "convert_to_type B ''throttlingRateLimit'' ''500'' = Inr (VFloat 500)"
    using assms(2) by (simp add: convert_to_type_def type_mappings_def)
  have pm: "patch_method_setting B ''*/*'' ''throttling/rateLimit'' ''500'' s =
     (s\<lparr>methodSettings := methodSettings s @
         [(''*/*'', AList.update ''throttlingRateLimit'' (VFloat 500)
                      get_default_method_settings)]\<rparr>, None)"
    using assms(1)
    by (simp add: patch_method_setting_def tr cv update_fresh update_last map_add_def Let_def)
  have ao: "apply_operation B
              \<lparr>op = ''replace'', path = ''/*/*/throttling/rateLimit'', value = Some ''500''\<rparr> s
            = patch_method_setting B ''*/*'' ''throttling/rateLimit'' ''500'' s"
    by (simp add: apply_operation_def split_rate_limit_path)
  show ?thesis by (simp add: ao pm get_default_method_settings_def)
qed

theorem rate_limit_patch_materializes_defaults_witness:
  "map_of (methodSettings new_stage) ''*/*'' = None
   \<and> py_float plain_builtins ''500'' = Some 500
   \<and> apply_operations plain_builtins
        [\<lparr>op = ''replace'', path = ''/*/*/throttling/rateLimit'', value = Some ''500''\<rparr>]
        new_stage
      = (\<lparr> stageName = Some ''prod'', deploymentId = Some ''d1'',
           methodSettings =
             [(''*/*'',
               [(''throttlingRateLimit'', VFloat 500),
                (''dataTraceEnabled'', VBool False),
                (''metricsEnabled'', VBool False),
                (''unauthorizedCacheControlHeaderStrategy'',
                   VStr ''SUCCEED_WITH_RESPONSE_HEADER''),
                (''cacheTtlInSeconds'', VInt 300),
                (''cacheDataEncrypted'', VBool True),
                (''cachingEnabled'', VBool False),
                (''throttlingBurstLimit'', VInt 2000),
                (''requireAuthorizationForCacheControl'', VBool True)])],
           variables = [], description = [], cacheClusterEnabled = Some False,
           cacheClusterSize = None \<rparr>, None)"
proof -
  have h1: "map_of (methodSettings new_stage) ''*/*'' = None" by (simp add: new_stage_value)
  show ?thesis
    using h1 plain_float_500 rate_limit_patch_materializes_defaults [OF h1 plain_float_500]
    by (simp add: new_stage_value)
qed



section \<open>Paths of the resource tree\<close>

text \<open>The equation of \<^verbatim>\<open>Resource.get_parent_path\<close> as the source writes it.\<close>

lemma get_parent_path_unfold:
  "get_parent_path G r =
     (if truthy (parent_id r) then
        (case map_of G (resource_region_name r) of
           None \<Rightarrow> Some (Inl KeyError)
         | Some b \<Rightarrow>
             (case get_resource b (api_id r) (case parent_id r of Some p \<Rightarrow> p | None \<Rightarrow> []) of
                Inl e \<Rightarrow> Some (Inl e)
              | Inr parent \<Rightarrow>
                  Option.bind (get_path G parent)
                    (\<lambda>res. case res of
                       Inl e \<Rightarrow> Some (Inl e)
                     | Inr parent_path \<Rightarrow>
                         Some (Inr (if parent_path \<noteq> ''/'' then parent_path @ ''/''
                                    else parent_path)))))
      else Some (Inr []))"
  by (subst get_parent_path.simps)
     (auto simp: get_path_def split: option.splits sum.splits Option.bind_splits)

text \<open>On a chain of parents that ends, \<^verbatim>\<open>get_path\<close> returns a path.\<close>

lemma get_path_returns: "parent_chain n G r \<Longrightarrow> \<exists>p. get_path G r = Some (Inr p)"
proof (induction n arbitrary: r)
  case 0
  then show ?case by (simp add: get_path_def get_parent_path_unfold)
next
  case (Suc n)
  then obtain b parent where b: "map_of G (resource_region_name r) = Some b"
    and p: "get_resource b (api_id r) (case parent_id r of Some p \<Rightarrow> p | None \<Rightarrow> [])
              = Inr parent"
    and c: "parent_chain n G parent" and t: "truthy (parent_id r)"
    by (auto split: option.splits sum.splits)
  from Suc.IH [OF c] obtain q where "get_path G parent = Some (Inr q)" by blast
  then show ?case using b p t
    by (simp add: get_path_def [of G r] get_parent_path_unfold [of G r])
qed

text \<open>The root \<^verbatim>\<open>RestAPI.__init__\<close> creates: no parent, path part \<^verbatim>\<open>"/"\<close>.\<close>

lemma RestAPI_init_root:
  "resources (RestAPI_init ident region nm descr ks now root_id) =
     [(root_id, \<lparr> resource_id = root_id, resource_region_name = region, api_id = ident,
                  path_part = ''/'', parent_id = None, resource_methods = [] \<rparr>)]"
  by (simp add: RestAPI_init_def add_child_def Let_def)

lemma root_lookup: "get_resource pets_backend ''a1'' ''r0'' = Inr root_resource"
  by (simp add: pets_backend_value get_resource_def get_rest_api_def root_resource_def)

text \<open>
  Claim C2. \<^verbatim>\<open>get_path()\<close> of the root (no parent, path part \<^verbatim>\<open>"/"\<close>) is \<^verbatim>\<open>"/"\<close>;
  \<^verbatim>\<open>get_path()\<close> of a resource with a parent is the parent's \<^verbatim>\<open>get_path()\<close>, with
  \<^verbatim>\<open>"/"\<close> appended when that is not \<^verbatim>\<open>"/"\<close> already, followed by the resource's own
  path part; and on a chain of parents that ends the call returns.
\<close>

theorem get_path_composition:
  "(\<not> truthy (parent_id r) \<and> path_part r = ''/'' \<longrightarrow> get_path G r = Some (Inr ''/''))
   \<and> (parent_id r = Some pid \<and> pid \<noteq> [] \<and> map_of G (resource_region_name r) = Some b
        \<and> get_resource b (api_id r) pid = Inr parent \<and> get_path G parent = Some (Inr pp)
      \<longrightarrow> get_path G r = Some (Inr ((if pp \<noteq> ''/'' then pp @ ''/'' else pp) @ path_part r)))
   \<and> (parent_chain n G r \<longrightarrow> (\<exists>p. get_path G r = Some (Inr p)))"
  using get_path_returns [of n G r]
  by (auto simp: get_path_def [of G r] get_parent_path_unfold [of G r])

theorem get_path_composition_witness:
  "\<not> truthy (parent_id root_resource) \<and> path_part root_resource = ''/''
   \<and> get_path [(''us-east-1'', pets_backend)] root_resource = Some (Inr ''/'')
   \<and> parent_id pets_resource = Some ''r0''
   \<and> get_resource pets_backend (api_id pets_resource) ''r0'' = Inr root_resource
   \<and> get_path [(''us-east-1'', pets_backend)] pets_resource = Some (Inr ''/pets'')
   \<and> parent_chain 1 [(''us-east-1'', pets_backend)] pets_resource"
proof -
  let ?G = "[(''us-east-1'', pets_backend)]"
  have r: "\<not> truthy (parent_id root_resource) \<and> path_part root_resource = ''/''"
    by (simp add: root_resource_def)
  have rp: "get_path ?G root_resource = Some (Inr ''/'')"
    using r get_path_composition [of root_resource ?G] by blast
  have p: "parent_id pets_resource = Some ''r0'' \<and> ''r0'' \<noteq> []
           \<and> map_of ?G (resource_region_name pets_resource) = Some pets_backend
           \<and> get_resource pets_backend (api_id pets_resource) ''r0'' = Inr root_resource"
    using root_lookup by (simp add: pets_resource_def)
  have pp: "get_path ?G pets_resource = Some (Inr ''/pets'')"
    using p rp
      get_path_composition [of pets_resource ?G "''r0''" pets_backend root_resource "''/''"]
    by (simp add: pets_resource_def)
  have ch: "parent_chain 1 ?G pets_resource"
    using root_lookup by (simp add: pets_resource_def root_resource_def)
  show ?thesis using r rp p pp ch by simp
qed

section \<open>Looking a resource up by its path\<close>

text \<open>The scan returns the first resource whose path is the argument.\<close>

lemma scan_resources_first_match:
  "\<forall>r \<in> set pre. \<exists>q. get_path G r = Some (Inr q) \<and> q \<noteq> p
     \<Longrightarrow> get_path G r = Some (Inr p)
     \<Longrightarrow> scan_resources G p (pre @ r # post) = Some (Inr (Some r))"
  by (induction pre) auto

text \<open>When no path is the argument, the scan ends and nothing is raised.\<close>

lemma scan_resources_no_match:
  "\<forall>r \<in> set rs. \<exists>q. get_path G r = Some (Inr q) \<and> q \<noteq> p
     \<Longrightarrow> scan_resources G p rs = Some (Inr None)"
  by (induction rs) auto

lemma root_resource_path:
  "get_path [(''us-east-1'', pets_backend)] root_resource = Some (Inr ''/'')"
  by (simp add: get_path_def get_parent_path_unfold root_resource_def)

lemma pets_resource_path:
  "get_path [(''us-east-1'', pets_backend)] pets_resource = Some (Inr ''/pets'')"
proof -
  have "get_parent_path [(''us-east-1'', pets_backend)] pets_resource = Some (Inr ''/'')"
    by (subst get_parent_path_unfold)
       (simp add: pets_resource_def root_lookup root_resource_path)
  then show ?thesis by (simp add: get_path_def pets_resource_def)
qed

text \<open>
  Claim C6. \<^verbatim>\<open>get_resource_for_path\<close> is to signal NotFound when no resource has the
  path. On the API with the resources \<^verbatim>\<open>/\<close> and \<^verbatim>\<open>/pets\<close>, the call with
  \<^verbatim>\<open>"/nope"\<close> raises nothing: it leaves the loop and returns Python's \<^verbatim>\<open>None\<close>.
\<close>

theorem get_resource_for_path_no_match_returns_None:
  "(case get_rest_api pets_backend ''a1'' of
      Inl e \<Rightarrow> None
    | Inr api \<Rightarrow> get_resource_for_path [(''us-east-1'', pets_backend)] api ''/nope'')
   = Some (Inr None)"
  using root_resource_path pets_resource_path
  by (simp add: get_rest_api_def get_resource_for_path_def pets_backend_value
        root_resource_def pets_resource_def)

section \<open>Creating a resource\<close>

text \<open>
  Claim C10. \<^verbatim>\<open>create_resource\<close> checks the path part against the pattern before
  it looks the API up: a path part that fails the pattern raises
  InvalidResourcePathException whether the API exists or not, and RestAPINotFound is
  raised exactly when the path part is valid and the API is missing.
\<close>

theorem create_resource_validates_path_first:
  "(\<not> re_match path_part_pattern pp \<longrightarrow>
      create_resource b fid parent pp cid = (Inl InvalidResourcePathException, b))
   \<and> (fst (create_resource b fid parent pp cid) = Inl RestAPINotFound
        \<longleftrightarrow> re_match path_part_pattern pp \<and> map_of (apis b) fid = None)"
  by (auto simp: create_resource_def get_rest_api_def add_child_def Let_def split: option.splits)

theorem create_resource_validates_path_first_witness:
  "\<not> re_match path_part_pattern ''a b''
   \<and> map_of (apis empty_backend) ''missing'' = None
   \<and> create_resource empty_backend ''missing'' (Some ''r0'') ''a b'' ''r9''
        = (Inl InvalidResourcePathException, empty_backend)
   \<and> re_match path_part_pattern ''pets''
   \<and> fst (create_resource empty_backend ''missing'' (Some ''r0'') ''pets'' ''r9'')
        = Inl RestAPINotFound"
  using spaced_path_part_invalid pets_path_part_valid
    create_resource_validates_path_first
      [of "''a b''" empty_backend "''missing''" "Some ''r0''" "''r9''"]
    create_resource_validates_path_first
      [of "''pets''" empty_backend "''missing''" "Some ''r0''" "''r9''"]
  by (simp add: empty_backend_def)

section \<open>Creating an integration\<close>

lemma s3_uri_matches:
  "re_match s3_arn_pattern ''arn:aws:apigateway:us-west-2:s3:path/bucket/key''"
  by (simp add: re_match_def s3_arn_pattern_def alnum_dash_def in_range_def)

lemma s3_uri_is_arn:
  "re_match aws_arn_pattern ''arn:aws:apigateway:us-west-2:s3:path/bucket/key''"
  by (simp add: re_match_def aws_arn_pattern_def)

lemma s3_uri_has_shape:
  "re_match integration_arn_pattern ''arn:aws:apigateway:us-west-2:s3:path/bucket/key''"
  by (simp add: re_match_def integration_arn_pattern_def alnum_dash_def in_range_def)

lemma role_of_account:
  "re_match (iam_arn_pattern (ACCOUNT_ID sample_environment))
     ''arn:aws:iam::123456789012:role/apigw''"
  by (simp add: re_match_def iam_arn_pattern_def sample_environment_def)

lemma pets_get_resource:
  "get_resource method_backend ''a1'' ''r1'' =
     Inr \<lparr> resource_id = ''r1'', resource_region_name = ''us-east-1'', api_id = ''a1'',
           path_part = ''pets'', parent_id = Some ''r0'',
           resource_methods = [(''GET'',
             \<lparr> httpMethod = ''GET'', authorizationType = Some ''NONE'',
               apiKeyRequired = False, methodIntegration = PyNone \<rparr>)] \<rparr>"
  by (simp add: method_backend_value get_resource_def get_rest_api_def)

text \<open>
  Claim C3 as written fails: the URI \<^verbatim>\<open>"arn:aws:s3:::bucket"\<close> does not match
  \<^verbatim>\<open>^arn:aws:apigateway:[a-zA-Z0-9-]+:s3\<close>, the pattern \<^verbatim>\<open>create_integration\<close> tests for
  an S3 target, so the call without credentials passes the role check and raises
  InvalidIntegrationArn.
\<close>

theorem create_integration_s3_bucket_arn_counterexample:
  "create_integration sample_environment method_backend ''a1'' ''r1'' ''GET'' ''AWS''
       ''arn:aws:s3:::bucket'' (Some ''GET'') None None
     = (Inl InvalidIntegrationArn, method_backend)
   \<and> fst (create_integration sample_environment method_backend ''a1'' ''r1'' ''GET'' ''AWS''
            ''arn:aws:s3:::bucket'' (Some ''GET'') None None) \<noteq> Inl RoleNotSpecified"
  by (simp add: Let_def method_backend_value create_integration_def get_resource_def
        get_rest_api_def re_match_def s3_arn_pattern_def aws_arn_pattern_def
        integration_arn_pattern_def)

text \<open>
  Claim C3, amended. On an existing resource, \<^verbatim>\<open>create_integration\<close> with type
  \<^verbatim>\<open>AWS\<close>, a URI matching \<^verbatim>\<open>^arn:aws:apigateway:[a-zA-Z0-9-]+:s3\<close> and an integration
  method, and without credentials, raises RoleNotSpecified and leaves the backend as
  it was. With credentials that match the IAM ARN prefix of the account it does not:
  the outcome is that of the later checks (InvalidArn, InvalidIntegrationArn) and of
  attaching the integration.
\<close>

theorem create_integration_role_check:
  assumes "get_resource b fid rid = Inr r" and "re_match s3_arn_pattern u"
    and "truthy integration_method"
  shows "(\<not> truthy credentials \<longrightarrow>
            create_integration E b fid rid mt ''AWS'' u integration_method credentials rt
              = (Inl RoleNotSpecified, b))
       \<and> (credentials = Some c \<and> c \<noteq> [] \<and> re_match (iam_arn_pattern (ACCOUNT_ID E)) c \<longrightarrow>
            create_integration E b fid rid mt ''AWS'' u integration_method credentials rt
              = (if \<not> re_match aws_arn_pattern u then (Inl InvalidArn, b)
                 else if \<not> re_match integration_arn_pattern u
                      then (Inl InvalidIntegrationArn, b)
                 else (case add_integration r mt ''AWS'' u rt of
                         Inl e \<Rightarrow> (Inl e, b)
                       | Inr (integration, r') \<Rightarrow>
                           (Inr integration, put_resource b fid rid r'))))"
  using assms by (auto simp: create_integration_def split: sum.splits)

theorem create_integration_role_check_witness:
  "re_match s3_arn_pattern ''arn:aws:apigateway:us-west-2:s3:path/bucket/key''
   \<and> truthy (Some ''GET'') \<and> \<not> truthy None
   \<and> create_integration sample_environment method_backend ''a1'' ''r1'' ''GET'' ''AWS''
        ''arn:aws:apigateway:us-west-2:s3:path/bucket/key'' (Some ''GET'') None None
      = (Inl RoleNotSpecified, method_backend)
   \<and> re_match (iam_arn_pattern (ACCOUNT_ID sample_environment))
        ''arn:aws:iam::123456789012:role/apigw''
   \<and> fst (create_integration sample_environment method_backend ''a1'' ''r1'' ''GET'' ''AWS''
        ''arn:aws:apigateway:us-west-2:s3:path/bucket/key'' (Some ''GET'')
        (Some ''arn:aws:iam::123456789012:role/apigw'') None)
      = Inr (Integration_init ''AWS'' ''arn:aws:apigateway:us-west-2:s3:path/bucket/key''
               ''GET'' None)"
proof -
  have t: "truthy (Some ''GET'')" by simp
  note a = create_integration_role_check [OF pets_get_resource s3_uri_matches t,
             of None sample_environment "''GET''" None
                "''arn:aws:iam::123456789012:role/apigw''"]
  note b = create_integration_role_check [OF pets_get_resource s3_uri_matches t,
             of "Some ''arn:aws:iam::123456789012:role/apigw''" sample_environment "''GET''"
                None "''arn:aws:iam::123456789012:role/apigw''"]
  show ?thesis using a b s3_uri_matches s3_uri_is_arn s3_uri_has_shape role_of_account
    by (simp add: add_integration_def Let_def)
qed

section \<open>Creating a deployment\<close>

lemma any_methods: "list_ex method_truth ms = (ms \<noteq> [])"
  by (cases ms) (simp_all add: method_truth_def)

lemma no_integration_iff:
  "(\<not> list_ex integration_truth
         (map (\<lambda>method. case methodIntegration method of
                           Present i \<Rightarrow> Some i | PyNone \<Rightarrow> None | Absent \<Rightarrow> None) ms))
     = (\<forall>m \<in> set ms. methodIntegration m = PyNone \<or> methodIntegration m = Absent)"
  by (induction ms) (auto simp: integration_truth_def split: slot.splits)

text \<open>
  What \<^verbatim>\<open>create_deployment\<close> decides on: the methods of the first resource of the
  API, and of no other.
\<close>

lemma create_deployment_reads_first_resource:
  assumes "get_rest_api b fid = Inr api" and "resources api = (rid, r) # rest"
  shows "create_deployment b fid nm d sv nid now =
          (if resource_methods r = [] then (Inl NoMethodDefined, b)
           else if \<forall>m \<in> set (map snd (resource_methods r)).
                     methodIntegration m = PyNone \<or> methodIntegration m = Absent
                then (Inl NoIntegrationDefined, b)
                else (Inr (fst (RestAPI_create_deployment api nm d sv nid now)),
                      b\<lparr>apis := AList.update fid
                                   (snd (RestAPI_create_deployment api nm d sv nid now))
                                   (apis b)\<rparr>))"
proof -
  have ni: "(\<not> list_ex integration_truth
         (map (\<lambda>method. case methodIntegration method of
                           Present i \<Rightarrow> Some i | PyNone \<Rightarrow> None | Absent \<Rightarrow> None)
            (map snd (resource_methods r))))
     = (\<forall>m \<in> set (map snd (resource_methods r)).
          methodIntegration m = PyNone \<or> methodIntegration m = Absent)"
    by (rule no_integration_iff)
  have nm: "list_ex method_truth (map snd (resource_methods r)) = (resource_methods r \<noteq> [])"
    by (simp add: any_methods)
  show ?thesis
    by (auto simp: create_deployment_def list_resources_def assms Let_def nm ni [simplified]
          split: prod.splits)
qed

text \<open>
  \<^verbatim>\<open>RestAPI.create_deployment\<close> stores the deployment under its identifier and a
  stage of the deployment's name that refers to it.
\<close>

lemma RestAPI_create_deployment_stage:
  "RestAPI_create_deployment api nm d sv nid now = (deployment, api')
     \<Longrightarrow> deployment_id deployment = nid
         \<and> map_of (deployments api') nid = Some deployment
         \<and> (\<exists>st. map_of (stages api') nm = Some st \<and> stageName st = Some nm
                   \<and> deploymentId st = Some nid)"
  by (auto simp: RestAPI_create_deployment_def Stage_init_def Let_def update_conv')

text \<open>An exception of \<^verbatim>\<open>create_deployment\<close> leaves the backend as it was.\<close>

lemma create_deployment_error_keeps_backend:
  "fst (create_deployment b fid nm d sv nid now) = Inl e
     \<Longrightarrow> snd (create_deployment b fid nm d sv nid now) = b"
  by (auto simp: create_deployment_def Let_def split: sum.splits list.splits prod.splits if_splits)

text \<open>
  Claim C1. \<^verbatim>\<open>create_deployment\<close> is to succeed when some method of the tree has an
  integration. On the API whose root has no method and whose resource \<^verbatim>\<open>/pets\<close> has
  the method \<^verbatim>\<open>GET\<close> with an integration, it raises NoMethodDefined: the \<^verbatim>\<open>[0]\<close> after
  the comprehension keeps the methods of the first resource, the root, only.
\<close>

theorem create_deployment_ignores_child_methods:
  "create_deployment integration_backend ''a1'' ''prod'' [] None ''d1'' 0
     = (Inl NoMethodDefined, integration_backend)"
  by (simp add: Let_def integration_backend_value create_deployment_def get_rest_api_def
        list_resources_def)

section \<open>API keys and usage plan keys\<close>

text \<open>
  Claim C8. Creating an API key with an explicit value that a key of the backend
  already has raises ApiKeyAlreadyExists and leaves the backend as it was; with an
  explicit value no key has, the call succeeds and stores the new key under its
  identifier, with the given value as its value (a non-empty one: the constructor
  replaces an empty value by a random one).
\<close>

theorem create_apikey_value_unique:
  assumes "payload_value payload = Some v"
  shows "((\<exists>k \<in> set (get_apikeys b). key_value k = v) \<longrightarrow>
            create_apikey b payload nid rv now = (Inl ApiKeyAlreadyExists, b))
       \<and> (\<not> (\<exists>k \<in> set (get_apikeys b). key_value k = v) \<longrightarrow>
            (\<exists>key. create_apikey b payload nid rv now
                      = (Inr key, b\<lparr>keys := AList.update nid key (keys b)\<rparr>)
                  \<and> key_id key = nid
                  \<and> (v \<noteq> [] \<longrightarrow> key_value key = v)
                  \<and> map_of (keys (snd (create_apikey b payload nid rv now))) nid = Some key))"
  using assms
  by (auto simp: create_apikey_def list_ex_iff ApiKey_init_def Let_def update_conv')

theorem create_apikey_value_unique_witness:
  "payload_value sample_payload = Some ''0123456789abcdefghij''
   \<and> create_apikey empty_backend sample_payload ''k1''
        ''ABCDEFGHIJKLMNOPQRSTUVWXYZabcdefghijklmn'' 0
      = (Inr \<lparr> key_id = ''k1'', key_value = ''0123456789abcdefghij'', key_name = Some ''key-one'',
               customerId = None, key_description = None, enabled = True, key_createdDate = 0,
               lastUpdatedDate = 0, stageKeys = [], tags = None \<rparr>, keyed_backend)
   \<and> create_apikey keyed_backend sample_payload ''k2''
        ''ABCDEFGHIJKLMNOPQRSTUVWXYZabcdefghijklmn'' 1
      = (Inl ApiKeyAlreadyExists, keyed_backend)"
proof -
  have h: "payload_value sample_payload = Some ''0123456789abcdefghij''"
    by (simp add: sample_payload_def)
  have e: "\<not> (\<exists>k \<in> set (get_apikeys empty_backend). key_value k = ''0123456789abcdefghij'')"
    by (simp add: get_apikeys_def empty_backend_def)
  have k: "\<exists>k \<in> set (get_apikeys keyed_backend). key_value k = ''0123456789abcdefghij''"
    by (simp add: get_apikeys_def keyed_backend_value)
  from create_apikey_value_unique [OF h, of empty_backend "''k1''"
         "''ABCDEFGHIJKLMNOPQRSTUVWXYZabcdefghijklmn''" 0] e
  obtain key where k1: "create_apikey empty_backend sample_payload ''k1''
        ''ABCDEFGHIJKLMNOPQRSTUVWXYZabcdefghijklmn'' 0
      = (Inr key, empty_backend\<lparr>keys := AList.update ''k1'' key (keys empty_backend)\<rparr>)"
    by auto
  have kd: "key = \<lparr> key_id = ''k1'', key_value = ''0123456789abcdefghij'',
               key_name = Some ''key-one'', customerId = None, key_description = None,
               enabled = True, key_createdDate = 0, lastUpdatedDate = 0, stageKeys = [],
               tags = None \<rparr>"
    using k1 by (auto simp: create_apikey_def get_apikeys_def ApiKey_init_def
        sample_payload_def empty_backend_def Let_def)
  have k1v: "create_apikey empty_backend sample_payload ''k1''
        ''ABCDEFGHIJKLMNOPQRSTUVWXYZabcdefghijklmn'' 0
      = (Inr \<lparr> key_id = ''k1'', key_value = ''0123456789abcdefghij'', key_name = Some ''key-one'',
               customerId = None, key_description = None, enabled = True, key_createdDate = 0,
               lastUpdatedDate = 0, stageKeys = [], tags = None \<rparr>, keyed_backend)"
    unfolding k1 kd by (simp add: keyed_backend_value empty_backend_def)
  from create_apikey_value_unique [OF h, of keyed_backend "''k2''"
         "''ABCDEFGHIJKLMNOPQRSTUVWXYZabcdefghijklmn''" 1] k
  have k2: "create_apikey keyed_backend sample_payload ''k2''
        ''ABCDEFGHIJKLMNOPQRSTUVWXYZabcdefghijklmn'' 1 = (Inl ApiKeyAlreadyExists, keyed_backend)"
    by blast
  show ?thesis using h k1v k2 by simp
qed

text \<open>
  Claim C7 as written fails: \<^verbatim>\<open>create_usage_plan_key\<close> registers an empty collection
  for the plan before it looks the key up, so the failed call changes
  \<^verbatim>\<open>usage_plan_keys\<close> when the plan had no collection.
\<close>

theorem create_usage_plan_key_changes_state_counterexample:
  "create_usage_plan_key empty_backend ''plan1'' [(''keyId'', ''nokey''), (''keyType'', ''API_KEY'')]
     = (Inl ApiKeyNotFoundException, empty_backend\<lparr>usage_plan_keys := [(''plan1'', [])]\<rparr>)
   \<and> empty_backend\<lparr>usage_plan_keys := [(''plan1'', [])]\<rparr> \<noteq> empty_backend"
  by (simp add: Let_def create_usage_plan_key_def empty_backend_def)

text \<open>
  Claim C7, amended. \<^verbatim>\<open>create_usage_plan_key\<close> with a \<^verbatim>\<open>keyId\<close> that is not an API key
  of the backend raises ApiKeyNotFoundException. The failed call leaves the APIs, the
  API keys and every existing collection of usage plan keys as they were; it adds an
  empty collection for the plan when the plan had none, so \<^verbatim>\<open>get_usage_plan_keys\<close>
  answers for every plan as before.
\<close>

theorem create_usage_plan_key_missing_key:
  assumes "map_of payload ''keyId'' = Some kid" and "map_of (keys b) kid = None"
  shows "fst (create_usage_plan_key b plan payload) = Inl ApiKeyNotFoundException
       \<and> apis (snd (create_usage_plan_key b plan payload)) = apis b
       \<and> keys (snd (create_usage_plan_key b plan payload)) = keys b
       \<and> region_name (snd (create_usage_plan_key b plan payload)) = region_name b
       \<and> usage_plan_keys (snd (create_usage_plan_key b plan payload))
           = (if map_of (usage_plan_keys b) plan = None
              then usage_plan_keys b @ [(plan, [])] else usage_plan_keys b)
       \<and> (\<forall>p. get_usage_plan_keys (snd (create_usage_plan_key b plan payload)) p
                = get_usage_plan_keys b p)"
  using assms
  by (auto simp: create_usage_plan_key_def Let_def update_fresh get_usage_plan_keys_def
        map_add_def split: option.splits)

theorem create_usage_plan_key_missing_key_witness:
  "map_of [(''keyId'', ''k9''), (''keyType'', ''API_KEY'')] ''keyId'' = Some ''k9''
   \<and> map_of (keys keyed_backend) ''k9'' = None
   \<and> fst (create_usage_plan_key keyed_backend ''plan1''
             [(''keyId'', ''k9''), (''keyType'', ''API_KEY'')]) = Inl ApiKeyNotFoundException
   \<and> keys (snd (create_usage_plan_key keyed_backend ''plan1''
             [(''keyId'', ''k9''), (''keyType'', ''API_KEY'')])) = keys keyed_backend
   \<and> usage_plan_keys (snd (create_usage_plan_key keyed_backend ''plan1''
             [(''keyId'', ''k9''), (''keyType'', ''API_KEY'')])) = [(''plan1'', [])]
   \<and> get_usage_plan_keys (snd (create_usage_plan_key keyed_backend ''plan1''
             [(''keyId'', ''k9''), (''keyType'', ''API_KEY'')])) ''plan1'' = []"
proof -
  have h1: "map_of [(''keyId'', ''k9''), (''keyType'', ''API_KEY'')] ''keyId'' = Some ''k9''"
    by simp
  have h2: "map_of (keys keyed_backend) ''k9'' = None" by (simp add: keyed_backend_value)
  have g: "get_usage_plan_keys keyed_backend ''plan1'' = []"
    by (simp add: get_usage_plan_keys_def keyed_backend_value)
  have u: "usage_plan_keys keyed_backend = []" by (simp add: keyed_backend_value)
  show ?thesis
    using h1 h2 g u create_usage_plan_key_missing_key [OF h1 h2, of "''plan1''"] by simp
qed

end
